theory Spec2Isabelle
  imports Main
begin

section \<open>Schedule repository (database.js)\<close>

text \<open>
  The model follows four source files: the schedule repository (database.js), the
  multi-user server that calls it (its \<^verbatim>\<open>register-display\<close>, \<^verbatim>\<open>disconnect\<close>,
  \<^verbatim>\<open>/api/display-now\<close>, \<^verbatim>\<open>/api/schedule\<close> handlers and its schedule checker),
  liveSessionDb.js and daypartScheduling.js. Handlers are functions from the state they
  read to the response, the events they emit and the state they leave; one handler runs
  at a time. A database statement fails only where the model says so (a constraint of the
  schema, or an injected fault in the live-session transaction).

  Instants are times in milliseconds and durations are milliseconds, as integers. A
  TIMESTAMP column (without time zone) keeps date and time fields; the model keeps them as
  the milliseconds those fields spell when read as UTC. The conflict check is the one
  place where the code mixes a client string with a JavaScript \<^verbatim>\<open>Date\<close> in one query, and
  there the model follows both conversions. A row of the \<^verbatim>\<open>schedules\<close> table has the
  columns that database-schema.sql declares and that \<^verbatim>\<open>scheduleDb.create\<close> fills; the
  bookkeeping columns \<^verbatim>\<open>created_at\<close> and \<^verbatim>\<open>updated_at\<close> are left out. The table has no
  owner or device column, and \<^verbatim>\<open>scheduleDb.create\<close> reads no owner from its argument.
\<close>

datatype status = Pending | Completed | Cancelled

record schedule =
  sched_id :: int
  image_url :: string
  scheduled_time :: int
  duration :: int
  repeat_type :: string
  rotation :: int
  mirror :: bool
  status :: status

text \<open>
  The three disjuncts of the WHERE clause of \<^verbatim>\<open>scheduleDb.hasConflict\<close>, for the candidate
  window from \<open>t1\<close> (parameter \<^verbatim>\<open>$1\<close>) to \<open>t2\<close> (parameter \<^verbatim>\<open>$2\<close>) and the row \<open>s\<close>.
\<close>

definition sql_overlap :: "int \<Rightarrow> int \<Rightarrow> schedule \<Rightarrow> bool" where
  "sql_overlap t1 t2 s =
     ((scheduled_time s \<le> t1 \<and> scheduled_time s + duration s > t1)
      \<or> (scheduled_time s < t2 \<and> scheduled_time s + duration s \<ge> t2)
      \<or> (scheduled_time s \<ge> t1 \<and> scheduled_time s < t2))"

text \<open>
  The row filter of the query: \<^verbatim>\<open>status = 'pending' AND ($3::INTEGER IS NULL OR id != $3)\<close>
  and the overlap test. \<open>excludeId = None\<close> is the JavaScript \<^verbatim>\<open>null\<close> default.
\<close>

definition conflict_row :: "int \<Rightarrow> int \<Rightarrow> int option \<Rightarrow> schedule \<Rightarrow> bool" where
  "conflict_row t1 t2 excludeId s =
     (status s = Pending
      \<and> (case excludeId of None \<Rightarrow> True | Some x \<Rightarrow> sched_id s \<noteq> x)
      \<and> sql_overlap t1 t2 s)"

subsection \<open>The two forms of an instant in the conflict query\<close>

text \<open>
  A schedule request carries its instant as an ISO 8601 date-time string with a four-digit
  year from 0001 to 9999. The code uses the string twice. As query parameter the string
  goes to the database as it is, and a TIMESTAMP (without time zone) reads its date and
  time fields and ignores any zone designator: \<open>ct_fields\<close>. \<^verbatim>\<open>new Date(string)\<close> reads the same fields at the UTC offset of
  the designator (0 for \<^verbatim>\<open>Z\<close>), or as local time when the string has none: \<open>ct_offset\<close>,
  with \<open>None\<close> for no designator.
\<close>

record client_time =
  ct_fields :: int
  ct_offset :: "int option"

text \<open>
  The time zone of the server process, as local time minus UTC in milliseconds:
  \<open>pz_offset_at\<close> at a UTC instant (the driver writes a \<^verbatim>\<open>Date\<close> parameter in local time),
  \<open>pz_offset_of_local\<close> at a local date-time (\<^verbatim>\<open>new Date\<close> reading a string without
  designator).
\<close>

record process_zone =
  pz_offset_at :: "int \<Rightarrow> int"
  pz_offset_of_local :: "int \<Rightarrow> int"

text \<open>\<^verbatim>\<open>new Date(scheduledTime).getTime()\<close>.\<close>

definition js_parse :: "process_zone \<Rightarrow> client_time \<Rightarrow> int" where
  "js_parse tz ct =
     (case ct_offset ct of
        Some z \<Rightarrow> ct_fields ct - z
      | None \<Rightarrow> ct_fields ct - pz_offset_of_local tz (ct_fields ct))"

text \<open>
  A \<^verbatim>\<open>Date\<close> holds a time value of at most 8.64e15 milliseconds either side of the epoch;
  beyond that it is an Invalid Date.
\<close>

definition valid_instant :: "int \<Rightarrow> bool" where
  "valid_instant i = (- 8640000000000000 \<le> i \<and> i \<le> 8640000000000000)"

text \<open>
  A \<^verbatim>\<open>Date\<close> as query parameter: the driver writes its local date and time with the
  offset, and the TIMESTAMP comparison keeps the fields and ignores the offset.
\<close>

definition pg_fields_of_date :: "process_zone \<Rightarrow> int \<Rightarrow> int" where
  "pg_fields_of_date tz i = i + pz_offset_at tz i"

text \<open>
  The range of a TIMESTAMP value, as milliseconds: from 4714-11-24 BC up to, and without,
  the year 294277.
\<close>

definition pg_timestamp :: "int \<Rightarrow> bool" where
  "pg_timestamp f = (- 210866803200000 \<le> f \<and> f < 9224318016000000)"

text \<open>The range of an INTEGER column or of a parameter cast to INTEGER.\<close>

definition int4 :: "int \<Rightarrow> bool" where
  "int4 x = (- 2147483648 \<le> x \<and> x \<le> 2147483647)"

datatype db_error = CheckViolation | ForeignKeyViolation | InvalidTimestamp | NumericOutOfRange

text \<open>
  \<^verbatim>\<open>async hasConflict(scheduledTime, duration, excludeId = null)\<close> in a process with time
  zone \<open>tz\<close>. The end of the candidate window is the \<^verbatim>\<open>Date\<close>
  \<^verbatim>\<open>new Date(new Date(scheduledTime).getTime() + duration)\<close>; the query gets the string as
  \<^verbatim>\<open>$1\<close> and that \<^verbatim>\<open>Date\<close> as \<^verbatim>\<open>$2\<close>, and the result is whether it returns a row. An
  Invalid Date, an end outside the range of TIMESTAMP or an id outside INTEGER makes the
  database reject the query, and the driver throws.
\<close>

definition hasConflict ::
  "process_zone \<Rightarrow> client_time \<Rightarrow> int \<Rightarrow> int option \<Rightarrow> schedule list \<Rightarrow> db_error + bool"
where
  "hasConflict tz scheduledTime dur excludeId rows =
     (let start = js_parse tz scheduledTime;
          endTime = start + dur
      in if valid_instant start \<and> valid_instant endTime
            \<and> pg_timestamp (pg_fields_of_date tz endTime) then
           (if (case excludeId of None \<Rightarrow> True | Some x \<Rightarrow> int4 x) then
              Inr (filter (conflict_row (ct_fields scheduledTime) (pg_fields_of_date tz endTime)
                             excludeId) rows \<noteq> [])
            else Inl NumericOutOfRange)
         else Inl InvalidTimestamp)"

subsection \<open>Tables and the other repository operations\<close>

record history_row =
  h_id :: int
  h_image_url :: string
  h_displayed_at :: int
  h_duration :: int
  h_rotation :: int
  h_mirror :: bool
  h_schedule_id :: "int option"

text \<open>
  The durable state the handlers below write: the two tables and their SERIAL sequences
  (the last value each sequence handed out).
\<close>

record database =
  schedules :: "schedule list"
  schedules_seq :: int
  display_history :: "history_row list"
  display_history_seq :: int

text \<open>JavaScript's \<^verbatim>\<open>x || d\<close> on an optional number, string and boolean.\<close>

definition or_default :: "int option \<Rightarrow> int \<Rightarrow> int" where
  "or_default v d = (case v of None \<Rightarrow> d | Some x \<Rightarrow> (if x = 0 then d else x))"

definition or_default_str :: "string option \<Rightarrow> string \<Rightarrow> string" where
  "or_default_str v d = (case v of None \<Rightarrow> d | Some x \<Rightarrow> (if x = [] then d else x))"

definition or_false :: "bool option \<Rightarrow> bool" where
  "or_false v = (case v of None \<Rightarrow> False | Some b \<Rightarrow> b)"

text \<open>
  The fields \<^verbatim>\<open>scheduleDb.create\<close> destructures from its argument. Callers pass more
  (\<^verbatim>\<open>userId\<close>, \<^verbatim>\<open>deviceId\<close>, \<^verbatim>\<open>groupId\<close>, video metadata); \<^verbatim>\<open>create\<close> reads none of it.
\<close>

record schedule_data =
  sd_imageUrl :: string
  sd_scheduledTime :: int
  sd_duration :: "int option"
  sd_repeat :: "string option"
  sd_rotation :: "int option"
  sd_mirror :: "bool option"

definition repeat_types :: "string list" where
  "repeat_types = [''once'', ''daily'', ''weekly'', ''monthly'', ''yearly'']"

text \<open>
  \<^verbatim>\<open>scheduleDb.create\<close>: one INSERT with status \<^verbatim>\<open>'pending'\<close>, returning the new row;
  \<open>sd_scheduledTime\<close> is the date and time fields of the string it passes on. A duration or
  rotation outside INTEGER is rejected before the row is formed: no row, and the sequence
  untouched. The CHECK constraints of the schema on \<^verbatim>\<open>repeat_type\<close> and \<^verbatim>\<open>rotation\<close> make
  the INSERT fail after the row is formed, so the sequence value is consumed. In both
  cases the driver throws.
\<close>

definition create :: "schedule_data \<Rightarrow> database \<Rightarrow> (db_error + schedule) \<times> database" where
  "create d db =
     (let i = schedules_seq db + 1;
          row = \<lparr>sched_id = i, image_url = sd_imageUrl d,
                 scheduled_time = sd_scheduledTime d,
                 duration = or_default (sd_duration d) 60000,
                 repeat_type = or_default_str (sd_repeat d) ''once'',
                 rotation = or_default (sd_rotation d) 0,
                 mirror = or_false (sd_mirror d),
                 status = Pending\<rparr>
      in if int4 (duration row) \<and> int4 (rotation row) then
           (if repeat_type row \<in> set repeat_types \<and> rotation row \<in> set [0, 90, 180, 270]
            then (Inr row, db\<lparr>schedules := schedules db @ [row], schedules_seq := i\<rparr>)
            else (Inl CheckViolation, db\<lparr>schedules_seq := i\<rparr>))
         else (Inl NumericOutOfRange, db))"

text \<open>
  \<^verbatim>\<open>scheduleDb.getPending()\<close> takes no parameter: the pending rows due at the database's
  \<^verbatim>\<open>NOW()\<close>, in ascending order of their instant.
\<close>

definition getPending :: "int \<Rightarrow> schedule list \<Rightarrow> schedule list" where
  "getPending now rows =
     sort_key scheduled_time (filter (\<lambda>s. status s = Pending \<and> scheduled_time s \<le> now) rows)"

text \<open>\<^verbatim>\<open>updateStatus(id, status)\<close> and \<^verbatim>\<open>reschedule(id, newTime)\<close>: one UPDATE by id each.\<close>

definition updateStatus :: "int \<Rightarrow> status \<Rightarrow> schedule list \<Rightarrow> schedule list" where
  "updateStatus i st rows = map (\<lambda>s. if sched_id s = i then s\<lparr>status := st\<rparr> else s) rows"

definition reschedule :: "int \<Rightarrow> int \<Rightarrow> schedule list \<Rightarrow> schedule list" where
  "reschedule i newTime rows =
     map (\<lambda>s. if sched_id s = i then s\<lparr>scheduled_time := newTime, status := Pending\<rparr> else s) rows"

text \<open>
  \<^verbatim>\<open>displayDb.create\<close>: one INSERT into \<^verbatim>\<open>display_history\<close>. A duration, rotation or
  schedule id outside INTEGER is rejected before the row is formed; the foreign key on
  \<^verbatim>\<open>schedule_id\<close> makes the INSERT fail when no schedule row has that id.
\<close>

record display_data =
  dd_imageUrl :: string
  dd_displayedAt :: int
  dd_duration :: int
  dd_rotation :: "int option"
  dd_mirror :: "bool option"
  dd_scheduleId :: "int option"

definition displayDb_create :: "display_data \<Rightarrow> database \<Rightarrow> (db_error + history_row) \<times> database" where
  "displayDb_create d db =
     (let i = display_history_seq db + 1;
          row = \<lparr>h_id = i, h_image_url = dd_imageUrl d, h_displayed_at = dd_displayedAt d,
                 h_duration = dd_duration d, h_rotation = or_default (dd_rotation d) 0,
                 h_mirror = or_false (dd_mirror d),
                 h_schedule_id = (case dd_scheduleId d of None \<Rightarrow> None
                                   | Some x \<Rightarrow> (if x = 0 then None else Some x))\<rparr>
      in if int4 (h_duration row) \<and> int4 (h_rotation row)
            \<and> (case h_schedule_id row of None \<Rightarrow> True | Some x \<Rightarrow> int4 x) then
           (if (case h_schedule_id row of None \<Rightarrow> True
                | Some x \<Rightarrow> x \<in> sched_id ` set (schedules db))
            then (Inr row, db\<lparr>display_history := display_history db @ [row],
                                 display_history_seq := i\<rparr>)
            else (Inl ForeignKeyViolation, db\<lparr>display_history_seq := i\<rparr>))
         else (Inl NumericOutOfRange, db))"

subsection \<open>The in-memory conflict check of the first server\<close>

text \<open>
  The server without a database keeps its schedules in an array, their instants as
  \<^verbatim>\<open>Date\<close> objects: \<open>Some i\<close> is the time value, \<open>None\<close> an Invalid Date. Its \<^verbatim>\<open>hasConflict\<close>
  reads the id, the time, the duration and the status of an entry; \<^verbatim>\<open>duration || 60000\<close>
  replaces a missing or zero duration by one minute. A comparison with an Invalid Date is
  false.
\<close>

record mem_schedule =
  m_id :: string
  m_scheduledTime :: "int option"
  m_duration :: "int option"
  m_status :: status

text \<open>\<^verbatim>\<open>new Date(d)\<close>, \<^verbatim>\<open>new Date(d.getTime() + n)\<close> and \<^verbatim>\<open>a < b\<close> on dates.\<close>

definition js_date :: "int option \<Rightarrow> int option" where
  "js_date v = (case v of None \<Rightarrow> None | Some i \<Rightarrow> (if valid_instant i then Some i else None))"

definition js_date_plus :: "int option \<Rightarrow> int \<Rightarrow> int option" where
  "js_date_plus v n = (case v of None \<Rightarrow> None | Some i \<Rightarrow> js_date (Some (i + n)))"

definition js_date_less :: "int option \<Rightarrow> int option \<Rightarrow> bool" where
  "js_date_less a b =
     (case a of None \<Rightarrow> False | Some x \<Rightarrow> (case b of None \<Rightarrow> False | Some y \<Rightarrow> x < y))"

definition mem_conflict_with ::
  "int option \<Rightarrow> int option \<Rightarrow> string option \<Rightarrow> mem_schedule \<Rightarrow> bool"
where
  "mem_conflict_with newStart newEnd excludeId sch =
     (if (case excludeId of None \<Rightarrow> False | Some x \<Rightarrow> x \<noteq> [] \<and> m_id sch = x) then False
      else if m_status sch \<noteq> Pending then False
      else (let existingStart = js_date (m_scheduledTime sch);
                existingEnd = js_date_plus existingStart (or_default (m_duration sch) 60000)
            in js_date_less newStart existingEnd \<and> js_date_less existingStart newEnd))"

definition mem_hasConflict :: "mem_schedule \<Rightarrow> mem_schedule list \<Rightarrow> string option \<Rightarrow> bool" where
  "mem_hasConflict newSchedule existingSchedules excludeId =
     (let newStart = js_date (m_scheduledTime newSchedule);
          newEnd = js_date_plus newStart (or_default (m_duration newSchedule) 60000)
      in list_ex (mem_conflict_with newStart newEnd excludeId) existingSchedules)"

subsection \<open>Half-open windows, as the specification words them\<close>

text \<open>
  Two windows \<open>[a, a + d)\<close> and \<open>[b, b + e)\<close> overlap when each starts strictly before the
  other ends. This definition follows the specification's sentence, not the code; the
  theorems below compare the code with it.
\<close>

definition spec_windows_overlap :: "int \<Rightarrow> int \<Rightarrow> int \<Rightarrow> int \<Rightarrow> bool" where
  "spec_windows_overlap a d b e = (a < b + e \<and> b < a + d)"

definition pending_at :: "int \<Rightarrow> int \<Rightarrow> int \<Rightarrow> schedule" where
  "pending_at i t d =
     \<lparr>sched_id = i, image_url = ''a.png'', scheduled_time = t, duration = d,
      repeat_type = ''once'', rotation = 0, mirror = False, status = Pending\<rparr>"

section \<open>Schedule requests of the multi-user server\<close>

text \<open>
  The body of a schedule request, with the fields the model follows. A field the client
  left out is \<open>None\<close>; the instant is a well-formed date-time string.
\<close>

record schedule_request =
  rq_imageUrl :: "string option"
  rq_scheduledTime :: "client_time option"
  rq_duration :: "int option"
  rq_repeat :: "string option"
  rq_rotation :: "int option"
  rq_mirror :: "bool option"
  rq_deviceId :: "int option"
  rq_groupId :: "int option"
  rq_uploadedFromGroup :: bool

datatype response =
    BadRequest400 string
  | NotFound404 string
  | Conflict409 string
  | ServerError500 string
  | ScheduleCreated schedule
  | SchedulesCreated "schedule list"
  | DisplaySent nat
  | NoResponse

definition truthy :: "int option \<Rightarrow> bool" where
  "truthy v = (case v of None \<Rightarrow> False | Some x \<Rightarrow> x \<noteq> 0)"

definition present :: "'a option \<Rightarrow> bool" where
  "present v = (case v of None \<Rightarrow> False | Some x \<Rightarrow> True)"

definition truthy_str :: "string option \<Rightarrow> bool" where
  "truthy_str v = (case v of None \<Rightarrow> False | Some x \<Rightarrow> x \<noteq> [])"

text \<open>The test \<^verbatim>\<open>groupId && uploadedFromGroup\<close>: the group to fan out to, if any.\<close>

definition group_target :: "int option \<Rightarrow> bool \<Rightarrow> int option" where
  "group_target groupId uploadedFromGroup =
     (case groupId of
        None \<Rightarrow> None
      | Some g \<Rightarrow> (if g \<noteq> 0 \<and> uploadedFromGroup then Some g else None))"

definition request_data :: "schedule_request \<Rightarrow> string \<Rightarrow> int \<Rightarrow> schedule_data" where
  "request_data rq url t =
     \<lparr>sd_imageUrl = url, sd_scheduledTime = t,
      sd_duration = Some (or_default (rq_duration rq) 60000),
      sd_repeat = Some (or_default_str (rq_repeat rq) ''once''),
      sd_rotation = Some (or_default (rq_rotation rq) 0),
      sd_mirror = Some (or_false (rq_mirror rq))\<rparr>"

text \<open>
  The fan-out of \<^verbatim>\<open>POST /api/schedule\<close>: one \<^verbatim>\<open>create\<close> per device of the selection group,
  without a conflict check. The first failing INSERT is rethrown; the rows created before
  it stay (there is no transaction).
\<close>

fun create_for_devices ::
  "schedule_data \<Rightarrow> int list \<Rightarrow> schedule list \<Rightarrow> database \<Rightarrow> (db_error + schedule list) \<times> database"
where
  "create_for_devices d [] acc db = (Inr acc, db)"
| "create_for_devices d (dev # devs) acc db =
     (case create d db of
        (Inl e, db') \<Rightarrow> (Inl e, db')
      | (Inr row, db') \<Rightarrow> create_for_devices d devs (acc @ [row]) db')"

text \<open>
  \<^verbatim>\<open>POST /api/schedule\<close> for the authenticated user \<open>userId\<close>, in a process with time zone
  \<open>tz\<close>. \<open>groups g u\<close> is the device list of selection group \<open>g\<close> of user \<open>u\<close> (\<open>None\<close> when
  \<^verbatim>\<open>getSelectionGroupWithDevices\<close> throws). On the single-device path the handler calls
  \<^verbatim>\<open>scheduleDb.hasConflict(scheduledTime, duration || 60000, userId)\<close>; the third parameter
  of \<^verbatim>\<open>hasConflict\<close> in database.js is \<^verbatim>\<open>excludeId\<close>, so that is where \<open>userId\<close> arrives.
  Whatever the repository throws ends in the handler's \<^verbatim>\<open>catch\<close>, which answers 500.
\<close>

definition post_schedule ::
  "process_zone \<Rightarrow> int \<Rightarrow> schedule_request \<Rightarrow> (int \<Rightarrow> int \<Rightarrow> int list option) \<Rightarrow> database
     \<Rightarrow> response \<times> database"
where
  "post_schedule tz userId rq groups db =
     (case (rq_imageUrl rq, rq_scheduledTime rq) of
        (Some url, Some t) \<Rightarrow>
          if url = [] then
            (BadRequest400 ''Content URL and scheduled time required'', db)
          else (case group_target (rq_groupId rq) (rq_uploadedFromGroup rq) of
            Some g \<Rightarrow>
              (case groups g userId of
                 None \<Rightarrow> (BadRequest400 ''Selection group not found or has no devices'', db)
               | Some devs \<Rightarrow>
                   if devs = [] then (BadRequest400 ''No devices in selection group'', db)
                   else (case create_for_devices (request_data rq url (ct_fields t)) devs [] db of
                           (Inl e, db') \<Rightarrow> (ServerError500 ''Failed to create schedule'', db')
                         | (Inr rows, db') \<Rightarrow> (SchedulesCreated rows, db')))
          | None \<Rightarrow>
              (case hasConflict tz t (or_default (rq_duration rq) 60000) (Some userId)
                      (schedules db) of
                 Inl e \<Rightarrow> (ServerError500 ''Failed to create schedule'', db)
               | Inr True \<Rightarrow> (Conflict409 ''Schedule conflict detected'', db)
               | Inr False \<Rightarrow>
                   (case create (request_data rq url (ct_fields t)) db of
                      (Inl e, db') \<Rightarrow> (ServerError500 ''Failed to create schedule'', db')
                    | (Inr row, db') \<Rightarrow> (ScheduleCreated row, db'))))
      | _ \<Rightarrow> (BadRequest400 ''Content URL and scheduled time required'', db))"

text \<open>
  The conflict gate of \<^verbatim>\<open>PUT /api/schedule/:id\<close>, up to the update itself: \<open>Some r\<close> is the
  response that ends the request there, \<open>None\<close> lets it go on to \<^verbatim>\<open>scheduleDb.update\<close>.
  The call is \<^verbatim>\<open>scheduleDb.hasConflict(scheduledTime, duration, userId, id)\<close>: \<open>userId\<close>
  arrives in \<^verbatim>\<open>excludeId\<close>, and the fourth argument \<open>sid\<close> has no parameter to arrive in.
  With the instant or the duration missing the window's end is an Invalid Date, which the
  database rejects; the handler answers 500, as it does whenever the check throws.
\<close>

definition put_schedule_conflict_gate ::
  "process_zone \<Rightarrow> int \<Rightarrow> int \<Rightarrow> schedule_request \<Rightarrow> schedule list \<Rightarrow> response option"
where
  "put_schedule_conflict_gate tz userId sid rq rows =
     (if present (rq_scheduledTime rq) \<or> truthy (rq_duration rq) then
        (case (rq_scheduledTime rq, rq_duration rq) of
           (Some t, Some d) \<Rightarrow>
             (case hasConflict tz t d (Some userId) rows of
                Inl e \<Rightarrow> Some (ServerError500 ''Failed to update schedule'')
              | Inr True \<Rightarrow> Some (Conflict409 ''Schedule conflict detected'')
              | Inr False \<Rightarrow> None)
         | _ \<Rightarrow> Some (ServerError500 ''Failed to update schedule''))
      else None)"

section \<open>Connection registry\<close>

text \<open>
  \<^verbatim>\<open>connectedDisplays\<close> is a JavaScript \<^verbatim>\<open>Map\<close> from a device's serial number to its live
  entry. A \<^verbatim>\<open>Map\<close> iterates in insertion order and \<^verbatim>\<open>set\<close> on a present key keeps the key's
  place, so the registry is an association list with these operations.
\<close>

record display_info =
  di_socketId :: string
  di_userId :: int
  di_deviceId :: int
  di_displayName :: string
  di_timezone :: string
  di_connectedAt :: int

type_synonym registry = "(string \<times> display_info) list"

fun map_set :: "'k \<Rightarrow> 'v \<Rightarrow> ('k \<times> 'v) list \<Rightarrow> ('k \<times> 'v) list" where
  "map_set k v [] = [(k, v)]"
| "map_set k v ((k', v') # m) = (if k' = k then (k, v) # m else (k', v') # map_set k v m)"

fun map_get :: "'k \<Rightarrow> ('k \<times> 'v) list \<Rightarrow> 'v option" where
  "map_get k [] = None"
| "map_get k ((k', v') # m) = (if k' = k then Some v' else map_get k m)"

fun map_delete :: "'k \<Rightarrow> ('k \<times> 'v) list \<Rightarrow> ('k \<times> 'v) list" where
  "map_delete k [] = []"
| "map_delete k ((k', v') # m) = (if k' = k then m else (k', v') # map_delete k m)"

text \<open>
  The reverse scan of the disconnect handler: the first entry, in iteration order, whose
  \<^verbatim>\<open>socketId\<close> is the closing socket's id.
\<close>

fun lookupBySession :: "string \<Rightarrow> registry \<Rightarrow> string option" where
  "lookupBySession sock [] = None"
| "lookupBySession sock ((serial, info) # m) =
     (if di_socketId info = sock then Some serial else lookupBySession sock m)"

definition disconnect :: "string \<Rightarrow> registry \<Rightarrow> registry" where
  "disconnect sock reg =
     (case lookupBySession sock reg of None \<Rightarrow> reg | Some serial \<Rightarrow> map_delete serial reg)"

text \<open>
  The entries a push goes to: the handlers scan the whole registry, in order, for the
  entries of one owner, or of one owner and one device.
\<close>

definition allOwnedBy :: "int \<Rightarrow> registry \<Rightarrow> registry" where
  "allOwnedBy u reg = filter (\<lambda>e. di_userId (snd e) = u) reg"

definition ownedDevice :: "int \<Rightarrow> int \<Rightarrow> registry \<Rightarrow> registry" where
  "ownedDevice u d reg = filter (\<lambda>e. di_userId (snd e) = u \<and> di_deviceId (snd e) = d) reg"

subsection \<open>Messages to displays\<close>

record content =
  c_type :: string
  c_url :: string
  c_rotation :: int
  c_mirror :: bool
  c_duration :: int
  c_displayedAt :: int
  c_clearAt :: int
  c_thumbnailUrl :: "string option"
  c_muted :: "bool option"

record zone =
  z_name :: string
  z_contentId :: "int option"
  z_mediaUrl :: "string option"
  z_mediaType :: "string option"
  z_thumbnailUrl :: "string option"

record layout_payload =
  lp_layoutId :: int
  lp_layoutName :: string
  lp_templateId :: string
  lp_zones :: "zone list"

datatype payload = DisplayContent content | DisplayLayout layout_payload

text \<open>An emitted \<^verbatim>\<open>display-content\<close> event: the socket id it is sent to, and its payload.\<close>

type_synonym emit = "string \<times> payload"

definition emit_to :: "registry \<Rightarrow> payload \<Rightarrow> emit list" where
  "emit_to entries p = map (\<lambda>e. (di_socketId (snd e), p)) entries"

section \<open>Live registration of a display\<close>

text \<open>
  Rows of the tables the registration handler reads: \<^verbatim>\<open>displays\<close> (through devicePairing.js),
  \<^verbatim>\<open>layouts\<close> and \<^verbatim>\<open>upload_history\<close>, with the columns it uses.
\<close>

record device =
  dev_id :: int
  dev_serial_number :: string
  dev_user_id :: "int option"
  dev_is_paired :: bool
  dev_device_name :: "string option"
  dev_device_timezone :: "string option"

record layout =
  l_id :: int
  l_device_id :: int
  l_user_id :: int
  l_is_active :: bool
  l_name :: string
  l_template_id :: string
  l_zones :: "zone list"

record upload =
  up_id :: int
  up_user_id :: int
  up_image_url :: string
  up_media_type :: string
  up_thumbnail_url :: "string option"

record register_data =
  rd_serialNumber :: "string option"
  rd_name :: "string option"
  rd_timezone :: "string option"

definition getDeviceBySerial :: "string \<Rightarrow> device list \<Rightarrow> device option" where
  "getDeviceBySerial serial devices = find (\<lambda>d. dev_serial_number d = serial) devices"

definition updateDeviceTimezone :: "int \<Rightarrow> string \<Rightarrow> device list \<Rightarrow> device list" where
  "updateDeviceTimezone i tz devices =
     map (\<lambda>d. if dev_id d = i then d\<lparr>dev_device_timezone := Some tz\<rparr> else d) devices"

definition zone_with_media :: "int \<Rightarrow> upload list \<Rightarrow> zone \<Rightarrow> zone" where
  "zone_with_media u uploads z =
     (if truthy (z_contentId z) then
        (case find (\<lambda>m. Some (up_id m) = z_contentId z \<and> up_user_id m = u) uploads of
           Some m \<Rightarrow> z\<lparr>z_mediaUrl := Some (up_image_url m), z_mediaType := Some (up_media_type m),
                        z_thumbnailUrl := up_thumbnail_url m\<rparr>
         | None \<Rightarrow> z)
      else z)"

definition layout_message :: "int \<Rightarrow> upload list \<Rightarrow> layout \<Rightarrow> payload" where
  "layout_message u uploads l =
     DisplayLayout \<lparr>lp_layoutId = l_id l, lp_layoutName = l_name l,
                    lp_templateId = l_template_id l,
                    lp_zones = map (zone_with_media u uploads) (l_zones l)\<rparr>"

text \<open>
  The content message the registration handler builds from a schedule row. The rows of
  database.js have no content type and no thumbnail, so the \<^verbatim>\<open>||\<close> defaults apply.
\<close>

definition replay_content :: "int \<Rightarrow> schedule \<Rightarrow> content" where
  "replay_content now s =
     \<lparr>c_type = ''image'', c_url = image_url s, c_rotation = rotation s, c_mirror = mirror s,
      c_duration = duration s, c_displayedAt = now, c_clearAt = now + duration s,
      c_thumbnailUrl = None, c_muted = None\<rparr>"

record server =
  sv_registry :: registry
  sv_devices :: "device list"
  sv_layouts :: "layout list"
  sv_uploads :: "upload list"
  sv_db :: database

text \<open>The \<^verbatim>\<open>||\<close> chains for the display name and the time zone of the entry.\<close>

definition display_name :: "device \<Rightarrow> register_data \<Rightarrow> string" where
  "display_name dev dat =
     or_default_str (dev_device_name dev) (or_default_str (rd_name dat) ''Display'')"

definition display_timezone :: "device \<Rightarrow> register_data \<Rightarrow> string" where
  "display_timezone dev dat =
     or_default_str (rd_timezone dat) (or_default_str (dev_device_timezone dev) ''UTC'')"

text \<open>The registry entry of device \<open>dev\<close> of owner \<open>u\<close>, connected through socket \<open>sock\<close>.\<close>

definition display_entry :: "string \<Rightarrow> device \<Rightarrow> int \<Rightarrow> register_data \<Rightarrow> int \<Rightarrow> display_info" where
  "display_entry sock dev u dat now =
     \<lparr>di_socketId = sock, di_userId = u, di_deviceId = dev_id dev,
      di_displayName = display_name dev dat, di_timezone = display_timezone dev dat,
      di_connectedAt = now\<rparr>"

definition store_timezone :: "device \<Rightarrow> register_data \<Rightarrow> device list \<Rightarrow> device list" where
  "store_timezone dev dat devices =
     (case rd_timezone dat of
        None \<Rightarrow> devices
      | Some tz \<Rightarrow> (if tz = [] then devices else updateDeviceTimezone (dev_id dev) tz devices))"

definition activeLayout :: "int \<Rightarrow> int \<Rightarrow> layout list \<Rightarrow> layout option" where
  "activeLayout d u layouts =
     find (\<lambda>l. l_device_id l = d \<and> l_user_id l = u \<and> l_is_active l) layouts"

text \<open>What the handler sends to the new socket once the display is registered.\<close>

definition replay_on_connect :: "string \<Rightarrow> int \<Rightarrow> int \<Rightarrow> int \<Rightarrow> server \<Rightarrow> emit list" where
  "replay_on_connect sock d u now sv =
     (case activeLayout d u (sv_layouts sv) of
        Some l \<Rightarrow> [(sock, layout_message u (sv_uploads sv) l)]
      | None \<Rightarrow>
          (case getPending now (schedules (sv_db sv)) of
             [] \<Rightarrow> []
           | schedule # rest \<Rightarrow> [(sock, DisplayContent (replay_content now schedule))]))"

text \<open>
  The \<^verbatim>\<open>register-display\<close> handler on socket \<open>sock\<close> at time \<open>now\<close>: the events it emits and
  the server state it leaves. The fetch of the schedules to replay is
  \<^verbatim>\<open>scheduleDb.getPending(device.user_id, device.id)\<close>; \<^verbatim>\<open>getPending\<close> declares no parameter,
  so both arguments are dropped.
\<close>

definition register_display :: "string \<Rightarrow> register_data \<Rightarrow> int \<Rightarrow> server \<Rightarrow> emit list \<times> server" where
  "register_display sock dat now sv =
     (case rd_serialNumber dat of
        None \<Rightarrow> ([], sv)
      | Some serialNumber \<Rightarrow>
          if serialNumber = [] then ([], sv)
          else
            (case getDeviceBySerial serialNumber (sv_devices sv) of
               None \<Rightarrow> ([], sv)
             | Some dev \<Rightarrow>
                 (case dev_user_id dev of
                    None \<Rightarrow> ([], sv)
                  | Some u \<Rightarrow>
                      if dev_is_paired dev \<and> u \<noteq> 0 then
                        (let sv' = sv\<lparr>sv_registry :=
                                         map_set serialNumber (display_entry sock dev u dat now)
                                           (sv_registry sv),
                                       sv_devices := store_timezone dev dat (sv_devices sv)\<rparr>
                         in (replay_on_connect sock (dev_id dev) u now sv', sv'))
                      else ([], sv))))"

text \<open>
  The two socket events that write the registry, and a run of them in arrival order.
\<close>

datatype socket_event = RegisterDisplay string register_data int | SocketDisconnect string

fun handle_event :: "server \<Rightarrow> socket_event \<Rightarrow> server" where
  "handle_event sv (RegisterDisplay sock dat now) = snd (register_display sock dat now sv)"
| "handle_event sv (SocketDisconnect sock) = sv\<lparr>sv_registry := disconnect sock (sv_registry sv)\<rparr>"

definition run_events :: "socket_event list \<Rightarrow> server \<Rightarrow> server" where
  "run_events evs sv = foldl handle_event sv evs"

text \<open>A serial the registration handler accepts: a known device, paired, with an owner.\<close>

definition paired_serial :: "string \<Rightarrow> server \<Rightarrow> bool" where
  "paired_serial serial sv =
     (case getDeviceBySerial serial (sv_devices sv) of
        None \<Rightarrow> False
      | Some dev \<Rightarrow> dev_is_paired dev \<and> truthy (dev_user_id dev))"

definition entries_of :: "string \<Rightarrow> registry \<Rightarrow> registry" where
  "entries_of serial reg = filter (\<lambda>e. fst e = serial) reg"

section \<open>The periodic sweep\<close>

text \<open>
  \<^verbatim>\<open>new Set(array)\<close> keeps the first occurrence of each element, in order.
\<close>

definition js_set_add :: "'a \<Rightarrow> 'a list \<Rightarrow> 'a list" where
  "js_set_add x s = (if x \<in> set s then s else s @ [x])"

definition js_set_of :: "'a list \<Rightarrow> 'a list" where
  "js_set_of xs = foldl (\<lambda>s x. js_set_add x s) [] xs"

definition activeUserIds :: "registry \<Rightarrow> int list" where
  "activeUserIds reg = js_set_of (map (\<lambda>e. di_userId (snd e)) reg)"

definition sweep_content :: "int \<Rightarrow> schedule \<Rightarrow> content" where
  "sweep_content now s =
     \<lparr>c_type = ''image'', c_url = image_url s, c_rotation = rotation s, c_mirror = mirror s,
      c_duration = duration s, c_displayedAt = now, c_clearAt = now + duration s,
      c_thumbnailUrl = None, c_muted = Some False\<rparr>"

text \<open>The \<^verbatim>\<open>switch\<close> on the repeat class; no case matches any other string.\<close>

definition nextTime :: "string \<Rightarrow> int \<Rightarrow> int option" where
  "nextTime rt currentTime =
     (if rt = ''daily'' then Some (currentTime + 24 * 60 * 60 * 1000)
      else if rt = ''weekly'' then Some (currentTime + 7 * 24 * 60 * 60 * 1000)
      else if rt = ''monthly'' then Some (currentTime + 30 * 24 * 60 * 60 * 1000)
      else if rt = ''yearly'' then Some (currentTime + 365 * 24 * 60 * 60 * 1000)
      else None)"

definition repeat_bookkeeping :: "schedule \<Rightarrow> schedule list \<Rightarrow> schedule list" where
  "repeat_bookkeeping s rows =
     (if repeat_type s = ''once'' then updateStatus (sched_id s) Completed rows
      else (case nextTime (repeat_type s) (scheduled_time s) of
              Some t \<Rightarrow> reschedule (sched_id s) t rows
            | None \<Rightarrow> rows))"

text \<open>
  One due entry of owner \<open>u\<close>'s pass: push to the owner's displays, log the history row (a
  failure is logged and swallowed), then the repeat bookkeeping.
\<close>

definition fire_schedule :: "int \<Rightarrow> int \<Rightarrow> registry \<Rightarrow> emit list \<times> database \<Rightarrow> schedule \<Rightarrow> emit list \<times> database" where
  "fire_schedule now u reg st s =
     (let out = fst st @ emit_to (allOwnedBy u reg) (DisplayContent (sweep_content now s));
          db1 = snd (displayDb_create
                  \<lparr>dd_imageUrl = image_url s, dd_displayedAt = now, dd_duration = duration s,
                   dd_rotation = Some (rotation s), dd_mirror = Some (mirror s),
                   dd_scheduleId = Some (sched_id s)\<rparr> (snd st))
      in (out, db1\<lparr>schedules := repeat_bookkeeping s (schedules db1)\<rparr>))"

text \<open>
  The pass over the owners: each owner's fetch is \<^verbatim>\<open>scheduleDb.getPending(userId)\<close>, made
  after the previous owners' bookkeeping; \<^verbatim>\<open>getPending\<close> declares no parameter, so the
  argument is dropped.
\<close>

fun sweep_users :: "int \<Rightarrow> registry \<Rightarrow> int list \<Rightarrow> emit list \<times> database \<Rightarrow> emit list \<times> database" where
  "sweep_users now reg [] st = st"
| "sweep_users now reg (u # us) st =
     sweep_users now reg us
       (foldl (fire_schedule now u reg) st (getPending now (schedules (snd st))))"

definition sweep :: "int \<Rightarrow> registry \<Rightarrow> database \<Rightarrow> emit list \<times> database" where
  "sweep now reg db = sweep_users now reg (activeUserIds reg) ([], db)"



section \<open>Immediate display\<close>

record display_now_request =
  dn_imageUrl :: "string option"
  dn_rotation :: "int option"
  dn_mirror :: "bool option"
  dn_duration :: "int option"
  dn_contentType :: "string option"
  dn_thumbnailUrl :: "string option"
  dn_muted :: "bool option"
  dn_clientTimestamp :: "int option"
  dn_deviceId :: "int option"
  dn_groupId :: "int option"
  dn_uploadedFromGroup :: bool

definition display_now_content :: "display_now_request \<Rightarrow> string \<Rightarrow> int \<Rightarrow> content" where
  "display_now_content rq url now =
     \<lparr>c_type = or_default_str (dn_contentType rq) ''image'', c_url = url,
      c_rotation = or_default (dn_rotation rq) 0, c_mirror = or_false (dn_mirror rq),
      c_duration = or_default (dn_duration rq) 60000, c_displayedAt = now,
      c_clearAt = now + or_default (dn_duration rq) 60000,
      c_thumbnailUrl = (case dn_thumbnailUrl rq of None \<Rightarrow> None
                        | Some x \<Rightarrow> (if x = [] then None else Some x)),
      c_muted = Some (or_false (dn_muted rq))\<rparr>"

text \<open>
  Target resolution of an immediate-display request: the registry entries the handler
  pushes to, in order, and \<^verbatim>\<open>targetDevices\<close>. For a group upload these are the connected
  displays of each device of the selection group and the group's devices; for a device id
  that device's connected displays; otherwise all connected displays of the owner.
  \<open>None\<close>: the selection group is not found, \<^verbatim>\<open>getSelectionGroupWithDevices\<close> throws, and
  the handler ends without a response.
\<close>

definition resolve_displays ::
  "int \<Rightarrow> display_now_request \<Rightarrow> (int \<Rightarrow> int \<Rightarrow> int list option) \<Rightarrow> registry
     \<Rightarrow> (registry \<times> int list) option"
where
  "resolve_displays u rq groups reg =
     (case group_target (dn_groupId rq) (dn_uploadedFromGroup rq) of
        Some g \<Rightarrow>
          (case groups g u of
             None \<Rightarrow> None
           | Some groupDevices \<Rightarrow>
               Some (concat (map (\<lambda>d. ownedDevice u d reg) groupDevices), groupDevices))
      | None \<Rightarrow>
          (case dn_deviceId rq of
             None \<Rightarrow> Some (allOwnedBy u reg, [])
           | Some d \<Rightarrow>
               (if d \<noteq> 0 then Some (ownedDevice u d reg, []) else Some (allOwnedBy u reg, []))))"

definition display_now_data :: "display_now_request \<Rightarrow> string \<Rightarrow> int \<Rightarrow> schedule_data" where
  "display_now_data rq url t =
     \<lparr>sd_imageUrl = url, sd_scheduledTime = t,
      sd_duration = Some (or_default (dn_duration rq) 60000),
      sd_repeat = Some ''once'',
      sd_rotation = Some (or_default (dn_rotation rq) 0),
      sd_mirror = Some (or_false (dn_mirror rq))\<rparr>"

text \<open>
  The ledger entry of an immediate display: \<^verbatim>\<open>create\<close>, then \<^verbatim>\<open>updateStatus\<close> to completed.
  A failing INSERT ends the bookkeeping; the handler logs it and still answers success.
\<close>

definition create_completed :: "schedule_data \<Rightarrow> database \<Rightarrow> bool \<times> database" where
  "create_completed d db =
     (case create d db of
        (Inl e, db') \<Rightarrow> (False, db')
      | (Inr row, db') \<Rightarrow>
          (True, db'\<lparr>schedules := updateStatus (sched_id row) Completed (schedules db')\<rparr>))"

fun create_completed_each :: "schedule_data \<Rightarrow> int list \<Rightarrow> database \<Rightarrow> database" where
  "create_completed_each d [] db = db"
| "create_completed_each d (dev # devs) db =
     (case create_completed d db of
        (False, db') \<Rightarrow> db'
      | (True, db') \<Rightarrow> create_completed_each d devs db')"

text \<open>
  \<^verbatim>\<open>POST /api/display-now\<close> for the authenticated user \<open>u\<close>; \<open>serverNow\<close> is the server's
  clock, used when the request carries no client timestamp. The result is the response,
  the events emitted and the database afterwards.
\<close>

definition display_now ::
  "int \<Rightarrow> display_now_request \<Rightarrow> int \<Rightarrow> (int \<Rightarrow> int \<Rightarrow> int list option) \<Rightarrow> registry \<Rightarrow> database
     \<Rightarrow> response \<times> emit list \<times> database"
where
  "display_now u rq serverNow groups reg db =
     (case dn_imageUrl rq of
        None \<Rightarrow> (BadRequest400 ''Content URL required'', [], db)
      | Some url \<Rightarrow>
          if url = [] then (BadRequest400 ''Content URL required'', [], db)
          else
            (let now = (case dn_clientTimestamp rq of None \<Rightarrow> serverNow | Some t \<Rightarrow> t)
             in (case resolve_displays u rq groups reg of
                   None \<Rightarrow> (NoResponse, [], db)
                 | Some (targets, targetDevices) \<Rightarrow>
                     (let out = emit_to targets (DisplayContent (display_now_content rq url now));
                          displaysSent = length targets
                      in if displaysSent = 0 then (NotFound404 ''No displays connected'', out, db)
                         else
                           (let db1 = snd (displayDb_create
                                        \<lparr>dd_imageUrl = url, dd_displayedAt = now,
                                         dd_duration = or_default (dn_duration rq) 60000,
                                         dd_rotation = Some (or_default (dn_rotation rq) 0),
                                         dd_mirror = Some (or_false (dn_mirror rq)),
                                         dd_scheduleId = None\<rparr> db);
                                db2 = (case group_target (dn_groupId rq) (dn_uploadedFromGroup rq) of
                                         Some g \<Rightarrow>
                                           create_completed_each (display_now_data rq url now)
                                             targetDevices db1
                                       | None \<Rightarrow>
                                           snd (create_completed (display_now_data rq url now) db1))
                            in (DisplaySent displaysSent, out, db2))))))"

section \<open>Ending a live session (liveSessionDb.js)\<close>













section \<open>Dayparts (daypartScheduling.js)\<close>

datatype daypart_key = BREAKFAST | LUNCH | DINNER | LATE_NIGHT | UNKNOWN

record daypart =
  dp_type :: daypart_key
  dp_start :: string
  dp_end :: string
  dp_name :: string

text \<open>The entries of \<^verbatim>\<open>DAYPARTS\<close>, and their order as \<^verbatim>\<open>Object.entries\<close> gives it.\<close>

definition breakfast :: daypart where
  "breakfast = \<lparr>dp_type = BREAKFAST, dp_start = ''06:00'', dp_end = ''11:00'', dp_name = ''Breakfast''\<rparr>"

definition lunch :: daypart where
  "lunch = \<lparr>dp_type = LUNCH, dp_start = ''11:00'', dp_end = ''16:00'', dp_name = ''Lunch''\<rparr>"

definition dinner :: daypart where
  "dinner = \<lparr>dp_type = DINNER, dp_start = ''16:00'', dp_end = ''22:00'', dp_name = ''Dinner''\<rparr>"

definition late_night :: daypart where
  "late_night = \<lparr>dp_type = LATE_NIGHT, dp_start = ''22:00'', dp_end = ''06:00'', dp_name = ''Late Night''\<rparr>"

definition DAYPARTS :: "daypart list" where
  "DAYPARTS = [breakfast, lunch, dinner, late_night]"

text \<open>
  JavaScript compares two strings code unit by code unit; a proper prefix is smaller.
\<close>

fun js_less :: "string \<Rightarrow> string \<Rightarrow> bool" where
  "js_less [] [] = False"
| "js_less [] (y # ys) = True"
| "js_less (x # xs) [] = False"
| "js_less (x # xs) (y # ys) =
     ((of_char x :: nat) < of_char y \<or> (x = y \<and> js_less xs ys))"

definition js_ge :: "string \<Rightarrow> string \<Rightarrow> bool" where
  "js_ge a b = (\<not> js_less a b)"

text \<open>
  \<^verbatim>\<open>String(n).padStart(2, '0')\<close> for the hours and minutes of a \<^verbatim>\<open>Date\<close>, which are below
  100: two decimal digits.
\<close>

definition digit :: "nat \<Rightarrow> char" where
  "digit n = char_of (48 + n)"

definition pad2 :: "nat \<Rightarrow> string" where
  "pad2 n = [digit (n div 10), digit (n mod 10)]"

definition currentTime :: "nat \<Rightarrow> nat \<Rightarrow> string" where
  "currentTime hours minutes = pad2 hours @ '':'' @ pad2 minutes"

text \<open>The test of one window: the wrap-around test for the late-night key, else the plain one.\<close>

definition in_daypart :: "string \<Rightarrow> daypart \<Rightarrow> bool" where
  "in_daypart t dp =
     (if dp_type dp = LATE_NIGHT then js_ge t (dp_start dp) \<or> js_less t (dp_end dp)
      else js_ge t (dp_start dp) \<and> js_less t (dp_end dp))"

definition unknown_daypart :: daypart where
  "unknown_daypart = \<lparr>dp_type = UNKNOWN, dp_start = [], dp_end = [], dp_name = ''Unknown''\<rparr>"

fun first_daypart :: "string \<Rightarrow> daypart list \<Rightarrow> daypart" where
  "first_daypart t [] = unknown_daypart"
| "first_daypart t (dp # dps) = (if in_daypart t dp then dp else first_daypart t dps)"

text \<open>\<^verbatim>\<open>getCurrentDaypart()\<close> when the local clock reads \<open>hours\<close>:\<open>minutes\<close>.\<close>

definition getCurrentDaypart :: "nat \<Rightarrow> nat \<Rightarrow> daypart" where
  "getCurrentDaypart hours minutes = first_daypart (currentTime hours minutes) DAYPARTS"

section \<open>Concrete states and requests\<close>

text \<open>
  The inputs at which the theorems below are evaluated: empty tables, a request for one
  minute of content, a server that knows one paired device (serial X, device 9 of user
  5), a registry entry, and a live-session database with one active session and one open
  viewer.
\<close>

definition empty_db :: database where
  "empty_db = \<lparr>schedules = [], schedules_seq = 0, display_history = [], display_history_seq = 0\<rparr>"

text \<open>
  A string with the designator \<^verbatim>\<open>Z\<close> whose fields spell the instant \<open>t\<close>; a process in UTC,
  and one five hours behind UTC all year.
\<close>

definition utc_time :: "int \<Rightarrow> client_time" where
  "utc_time t = \<lparr>ct_fields = t, ct_offset = Some 0\<rparr>"

definition utc_process :: process_zone where
  "utc_process = \<lparr>pz_offset_at = (\<lambda>i. 0), pz_offset_of_local = (\<lambda>w. 0)\<rparr>"

definition utc_minus_5 :: process_zone where
  "utc_minus_5 = \<lparr>pz_offset_at = (\<lambda>i. - 18000000), pz_offset_of_local = (\<lambda>w. - 18000000)\<rparr>"

definition minute_request :: "int \<Rightarrow> schedule_request" where
  "minute_request t =
     \<lparr>rq_imageUrl = Some ''a.png'', rq_scheduledTime = Some (utc_time t), rq_duration = Some 60000,
      rq_repeat = None, rq_rotation = None, rq_mirror = None, rq_deviceId = None,
      rq_groupId = None, rq_uploadedFromGroup = False\<rparr>"

definition no_groups :: "int \<Rightarrow> int \<Rightarrow> int list option" where
  "no_groups g u = None"

definition demo_device :: device where
  "demo_device = \<lparr>dev_id = 9, dev_serial_number = ''X'', dev_user_id = Some 5,
                  dev_is_paired = True, dev_device_name = None, dev_device_timezone = None\<rparr>"

definition demo_server :: server where
  "demo_server = \<lparr>sv_registry = [], sv_devices = [demo_device], sv_layouts = [],
                  sv_uploads = [], sv_db = empty_db\<rparr>"

definition demo_register :: register_data where
  "demo_register = \<lparr>rd_serialNumber = Some ''X'', rd_name = None, rd_timezone = None\<rparr>"

definition demo_entry :: "string \<Rightarrow> int \<Rightarrow> int \<Rightarrow> display_info" where
  "demo_entry sock u d =
     \<lparr>di_socketId = sock, di_userId = u, di_deviceId = d, di_displayName = ''Display'',
      di_timezone = ''UTC'', di_connectedAt = 0\<rparr>"

definition demo_display_now :: display_now_request where
  "demo_display_now =
     \<lparr>dn_imageUrl = Some ''a.png'', dn_rotation = None, dn_mirror = None, dn_duration = None,
      dn_contentType = None, dn_thumbnailUrl = None, dn_muted = None,
      dn_clientTimestamp = None, dn_deviceId = None, dn_groupId = None,
      dn_uploadedFromGroup = False\<rparr>"


text \<open>
  The database after user 7 alone has scheduled one minute of content at instant 0 for
  their device 3, starting from empty tables, in a process in UTC.
\<close>

definition other_owner_db :: database where
  "other_owner_db =
     snd (post_schedule utc_process 7 ((minute_request 0)\<lparr>rq_deviceId := Some 3\<rparr>) no_groups
            empty_db)"

section \<open>Properties of the conflict check\<close>

text \<open>
  When the query runs, its answer is whether some row passes the filter for the fields of
  the string and the local fields of the end; it looks at pending rows only, and never at
  the row whose id it is told to exclude.
\<close>

lemma hasConflict_Inr:
  "hasConflict tz ct d ex rows = Inr b \<Longrightarrow>
     b = (\<exists>s \<in> set rows.
            conflict_row (ct_fields ct) (pg_fields_of_date tz (js_parse tz ct + d)) ex s)"
  by (auto simp: hasConflict_def Let_def filter_empty_conv split: if_splits)

lemma hasConflict_pending_only:
  "hasConflict tz ct d ex rows = hasConflict tz ct d ex (filter (\<lambda>s. status s = Pending) rows)"
  by (auto simp: hasConflict_def Let_def filter_empty_conv conflict_row_def)

lemma hasConflict_ignores_excluded:
  "hasConflict tz ct d (Some x) rows
     = hasConflict tz ct d (Some x) (filter (\<lambda>s. sched_id s \<noteq> x) rows)"
  by (auto simp: hasConflict_def Let_def filter_empty_conv conflict_row_def)

lemma sql_overlap_proper:
  assumes "0 < d" and "0 < duration s"
  shows "sql_overlap t (t + d) s = spec_windows_overlap t d (scheduled_time s) (duration s)"
  using assms by (auto simp: sql_overlap_def spec_windows_overlap_def)

text \<open>
  Where the check is half-open interval overlap: the string carries a designator whose
  offset is the offset of the process zone, so that start and end reach the query on one
  time line, and the candidate and the rows have positive durations.
\<close>

lemma hasConflict_same_offset:
  fixes rows :: "schedule list"
  assumes "ct_offset ct = Some z" and "\<forall>i. pz_offset_at tz i = z"
    and "valid_instant (ct_fields ct - z)" and "valid_instant (ct_fields ct - z + d)"
    and "pg_timestamp (ct_fields ct + d)"
    and "0 < d" and "\<forall>s \<in> set rows. 0 < duration s"
  shows "hasConflict tz ct d None rows =
     Inr (\<exists>s \<in> set rows. status s = Pending
            \<and> spec_windows_overlap (ct_fields ct) d (scheduled_time s) (duration s))"
proof -
  have e: "pg_fields_of_date tz (js_parse tz ct + d) = ct_fields ct + d"
    using assms(1,2) by (simp add: pg_fields_of_date_def js_parse_def)
  have "hasConflict tz ct d None rows =
      Inr (\<exists>s \<in> set rows. conflict_row (ct_fields ct) (ct_fields ct + d) None s)"
    using assms(1,3,4,5) e by (simp add: hasConflict_def Let_def filter_empty_conv js_parse_def)
  also have "\<dots> = Inr (\<exists>s \<in> set rows. status s = Pending
            \<and> spec_windows_overlap (ct_fields ct) d (scheduled_time s) (duration s))"
    using assms(6,7) by (simp add: conflict_row_def sql_overlap_proper)
  finally show ?thesis .
qed

text \<open>
  An empty candidate window is reported to conflict with a pending window that starts at
  the same instant, although that window does not start strictly before the candidate
  ends.
\<close>

lemma hasConflict_empty_window:
  "hasConflict utc_process (utc_time 1000) 0 None [pending_at 1 1000 60000] = Inr True
   \<and> \<not> spec_windows_overlap 1000 0 1000 60000"
  by (simp add: hasConflict_def Let_def conflict_row_def sql_overlap_def spec_windows_overlap_def
      pending_at_def utc_process_def utc_time_def js_parse_def valid_instant_def
      pg_fields_of_date_def pg_timestamp_def)

text \<open>
  The in-memory check of the first server compares instants with instants: it is the
  half-open test wherever the dates are valid, and it finds the overlap of the window
  10:00:00 to 10:00:31 with the pending window 10:00:30 to 10:01:00 and none for the
  window 10:00:00 to 10:00:30 (times in milliseconds of the day).
\<close>

lemma mem_hasConflict_example:
  "mem_hasConflict \<lparr>m_id = [], m_scheduledTime = Some 36000000, m_duration = Some 31000,
                     m_status = Pending\<rparr>
     [\<lparr>m_id = ''1'', m_scheduledTime = Some 36030000, m_duration = Some 30000,
       m_status = Pending\<rparr>] None
   \<and> \<not> mem_hasConflict \<lparr>m_id = [], m_scheduledTime = Some 36000000, m_duration = Some 30000,
                     m_status = Pending\<rparr>
     [\<lparr>m_id = ''1'', m_scheduledTime = Some 36030000, m_duration = Some 30000,
       m_status = Pending\<rparr>] None"
  by (simp add: mem_hasConflict_def mem_conflict_with_def Let_def js_date_def js_date_plus_def
      js_date_less_def valid_instant_def or_default_def)

lemma mem_hasConflict_valid:
  assumes "m_scheduledTime n = Some a" and "valid_instant a"
    and "valid_instant (a + or_default (m_duration n) 60000)"
    and "\<forall>s \<in> set xs. \<exists>b. m_scheduledTime s = Some b \<and> valid_instant b
            \<and> valid_instant (b + or_default (m_duration s) 60000)"
  shows "mem_hasConflict n xs None =
     (\<exists>s \<in> set xs. m_status s = Pending \<and>
        (\<exists>b. m_scheduledTime s = Some b \<and>
           spec_windows_overlap a (or_default (m_duration n) 60000)
             b (or_default (m_duration s) 60000)))"
proof -
  have one: "mem_conflict_with (Some a) (Some (a + or_default (m_duration n) 60000)) None s
      = (m_status s = Pending \<and>
        (\<exists>b. m_scheduledTime s = Some b \<and>
           spec_windows_overlap a (or_default (m_duration n) 60000)
             b (or_default (m_duration s) 60000)))"
    if "s \<in> set xs" for s
  proof -
    from that assms(4) obtain b where b: "m_scheduledTime s = Some b" "valid_instant b"
      "valid_instant (b + or_default (m_duration s) 60000)" by blast
    then show ?thesis
      by (auto simp: mem_conflict_with_def Let_def js_date_def js_date_plus_def js_date_less_def
          spec_windows_overlap_def)
  qed
  have "mem_hasConflict n xs None =
      list_ex (mem_conflict_with (Some a) (Some (a + or_default (m_duration n) 60000)) None) xs"
    using assms(1-3) by (simp add: mem_hasConflict_def Let_def js_date_def js_date_plus_def)
  then show ?thesis using one by (auto simp: list_ex_iff)
qed

text \<open>
  C3 at a failing input: the pending entry was stored from a string that spells 10:00:30
  with the designator \<^verbatim>\<open>Z\<close>, for 30 seconds; the candidate is the string that spells
  10:00:00 with \<^verbatim>\<open>Z\<close>, for 31 seconds, so the two windows overlap by one second. In a
  process five hours behind UTC the driver writes the end of the candidate as the local
  time 05:00:31, the query compares 10:00:30 with it, and the check reports no conflict.
  In a process in UTC the same call reports the conflict.
\<close>

theorem hasConflict_misses_overlap_off_utc:
  "hasConflict utc_minus_5 (utc_time 36000000) 31000 None [pending_at 1 36030000 30000] = Inr False
   \<and> hasConflict utc_process (utc_time 36000000) 31000 None [pending_at 1 36030000 30000] = Inr True
   \<and> spec_windows_overlap 36000000 31000 36030000 30000"
  by (simp add: hasConflict_def Let_def conflict_row_def sql_overlap_def spec_windows_overlap_def
      pending_at_def utc_process_def utc_minus_5_def utc_time_def js_parse_def valid_instant_def
      pg_fields_of_date_def pg_timestamp_def)

section \<open>The conflict gate of the multi-user server\<close>

lemma create_pending_at:
  "create (request_data (minute_request t) ''a.png'' t) db =
     (Inr (pending_at (schedules_seq db + 1) t 60000),
      db\<lparr>schedules := schedules db @ [pending_at (schedules_seq db + 1) t 60000],
         schedules_seq := schedules_seq db + 1\<rparr>)"
  by (simp add: create_def request_data_def minute_request_def pending_at_def Let_def
      or_default_def or_default_str_def or_false_def repeat_types_def int4_def)

lemma post_schedule_single:
  "post_schedule tz u (minute_request t) no_groups db =
     (case hasConflict tz (utc_time t) 60000 (Some u) (schedules db) of
        Inl e \<Rightarrow> (ServerError500 ''Failed to create schedule'', db)
      | Inr True \<Rightarrow> (Conflict409 ''Schedule conflict detected'', db)
      | Inr False \<Rightarrow>
          (ScheduleCreated (pending_at (schedules_seq db + 1) t 60000),
            db\<lparr>schedules := schedules db @ [pending_at (schedules_seq db + 1) t 60000],
               schedules_seq := schedules_seq db + 1\<rparr>))"
proof -
  have sel: "rq_imageUrl (minute_request t) = Some ''a.png''"
    "rq_scheduledTime (minute_request t) = Some (utc_time t)"
    "rq_duration (minute_request t) = Some 60000"
    "rq_groupId (minute_request t) = None"
    by (simp_all add: minute_request_def)
  have f: "ct_fields (utc_time t) = t" by (simp add: utc_time_def)
  show ?thesis
    by (simp add: post_schedule_def sel group_target_def or_default_def create_pending_at f
        split: sum.splits bool.splits)
qed

lemma hasConflict_excluded_row:
  assumes "valid_instant t" and "valid_instant (t + d)" and "pg_timestamp (t + d)" and "int4 x"
  shows "hasConflict utc_process (utc_time t) d (Some x) [pending_at x t' d'] = Inr False"
  using assms
  by (simp add: hasConflict_def Let_def conflict_row_def pending_at_def utc_time_def js_parse_def
      utc_process_def pg_fields_of_date_def)

text \<open>
  C1 at a failing input: on an empty database, in a process in UTC, user 1
  schedules one minute of content at instant 0 and gets schedule 1; the same user then
  schedules one minute at instant 30000. The second request passes the conflict check,
  because the check skips the row whose id equals the caller's user id, and the table
  ends with two pending entries whose windows overlap.
\<close>

theorem post_schedule_double_booking:
  "post_schedule utc_process 1 (minute_request 0) no_groups empty_db =
     (ScheduleCreated (pending_at 1 0 60000),
      \<lparr>schedules = [pending_at 1 0 60000], schedules_seq = 1,
       display_history = [], display_history_seq = 0\<rparr>)
   \<and> post_schedule utc_process 1 (minute_request 30000) no_groups
        \<lparr>schedules = [pending_at 1 0 60000], schedules_seq = 1,
         display_history = [], display_history_seq = 0\<rparr> =
     (ScheduleCreated (pending_at 2 30000 60000),
      \<lparr>schedules = [pending_at 1 0 60000, pending_at 2 30000 60000], schedules_seq = 2,
       display_history = [], display_history_seq = 0\<rparr>)
   \<and> status (pending_at 1 0 60000) = Pending
   \<and> status (pending_at 2 30000 60000) = Pending
   \<and> spec_windows_overlap 0 60000 30000 60000"
proof -
  have c1: "hasConflict utc_process (utc_time 0) 60000 (Some 1) [] = Inr False"
    by (simp add: hasConflict_def Let_def utc_time_def js_parse_def valid_instant_def int4_def
        utc_process_def pg_fields_of_date_def pg_timestamp_def)
  have c2: "hasConflict utc_process (utc_time 30000) 60000 (Some 1) [pending_at 1 0 60000]
      = Inr False"
    by (rule hasConflict_excluded_row) (simp_all add: valid_instant_def int4_def pg_timestamp_def)
  show ?thesis
    by (simp add: post_schedule_single empty_db_def c1 c2 spec_windows_overlap_def)
       (simp add: pending_at_def)
qed

text \<open>
  C2 at a failing input: the table holds one pending entry, schedule 2, from instant 0 for
  one minute. User 1 moves schedule 2 by one second. The handler's call puts the user id
  where \<^verbatim>\<open>hasConflict\<close> expects the id to exclude, so the entry's own prior window is not
  ignored and the request is refused; a check that excludes schedule 2 finds no conflict.
\<close>

theorem put_schedule_conflicts_with_itself:
  "put_schedule_conflict_gate utc_process 1 2 (minute_request 1000) [pending_at 2 0 60000]
     = Some (Conflict409 ''Schedule conflict detected'')
   \<and> hasConflict utc_process (utc_time 1000) 60000 (Some 2) [pending_at 2 0 60000] = Inr False"
proof -
  have c1: "hasConflict utc_process (utc_time 1000) 60000 (Some 1) [pending_at 2 0 60000]
      = Inr True"
    by (simp add: hasConflict_def Let_def conflict_row_def sql_overlap_def pending_at_def
        utc_time_def js_parse_def valid_instant_def int4_def utc_process_def
        pg_fields_of_date_def pg_timestamp_def)
  have c2: "hasConflict utc_process (utc_time 1000) 60000 (Some 2) [pending_at 2 0 60000]
      = Inr False"
    by (rule hasConflict_excluded_row) (simp_all add: valid_instant_def int4_def pg_timestamp_def)
  show ?thesis
    by (simp add: put_schedule_conflict_gate_def minute_request_def present_def c1 c2)
qed

section \<open>Properties of the connection registry\<close>

lemma map_fst_map_set: "map fst (map_set k v m) = (if k \<in> fst ` set m then map fst m else map fst m @ [k])"
  by (induction m) (force split: if_splits)+

lemma distinct_map_set: "distinct (map fst m) \<Longrightarrow> distinct (map fst (map_set k v m))"
  by (simp add: map_fst_map_set)

lemma set_map_delete: "set (map_delete k m) \<subseteq> set m"
  by (induction m) (auto split: if_splits)

lemma distinct_map_delete: "distinct (map fst m) \<Longrightarrow> distinct (map fst (map_delete k m))"
proof (induction m)
  case Nil then show ?case by simp
next
  case (Cons a m)
  obtain k' v' where a: "a = (k', v')" by (cases a)
  have "fst ` set (map_delete k m) \<subseteq> fst ` set m" using set_map_delete by fastforce
  with Cons show ?case by (auto simp: a)
qed

lemma distinct_disconnect: "distinct (map fst reg) \<Longrightarrow> distinct (map fst (disconnect sock reg))"
  by (simp add: disconnect_def distinct_map_delete split: option.splits)

lemma registry_register_display:
  "sv_registry (snd (register_display sock dat now sv)) = sv_registry sv
   \<or> (\<exists>k v. sv_registry (snd (register_display sock dat now sv)) = map_set k v (sv_registry sv))"
  by (auto simp: register_display_def Let_def split: option.splits)

lemma distinct_handle_event:
  "distinct (map fst (sv_registry sv)) \<Longrightarrow> distinct (map fst (sv_registry (handle_event sv e)))"
proof (cases e)
  case (RegisterDisplay sock dat now)
  then show "distinct (map fst (sv_registry sv)) \<Longrightarrow> ?thesis"
    using registry_register_display [of sock dat now sv]
    by (auto simp: distinct_map_set)
next
  case (SocketDisconnect sock)
  then show "distinct (map fst (sv_registry sv)) \<Longrightarrow> ?thesis"
    by (simp add: distinct_disconnect)
qed

lemma distinct_run_events:
  "distinct (map fst (sv_registry sv)) \<Longrightarrow> distinct (map fst (sv_registry (run_events evs sv)))"
  unfolding run_events_def
  by (induction evs arbitrary: sv) (simp_all add: distinct_handle_event)

lemma map_get_map_set: "map_get k (map_set k v m) = Some v"
  by (induction m) auto

lemma entries_of_map_set:
  "distinct (map fst m) \<Longrightarrow> entries_of k (map_set k v m) = [(k, v)]"
proof (induction m)
  case Nil then show ?case by (simp add: entries_of_def)
next
  case (Cons a m)
  obtain k' v' where a: "a = (k', v')" by (cases a)
  show ?case
  proof (cases "k' = k")
    case True
    with Cons.prems have "k \<notin> fst ` set m" by (simp add: a)
    then have "filter (\<lambda>e. fst e = k) m = []" by (auto simp: filter_empty_conv)
    with True show ?thesis by (simp add: a entries_of_def)
  next
    case False
    with Cons show ?thesis by (simp add: a entries_of_def)
  qed
qed

lemma lookupBySession_Some:
  "lookupBySession sock reg = Some serial \<Longrightarrow> \<exists>info. (serial, info) \<in> set reg \<and> di_socketId info = sock"
  by (induction reg) (auto split: if_splits)

lemma lookupBySession_None:
  "lookupBySession sock reg = None \<longleftrightarrow> (\<forall>e \<in> set reg. di_socketId (snd e) \<noteq> sock)"
  by (induction reg) (auto split: if_splits)

lemma map_set_mem: "(k, v) \<in> set (map_set k v m)"
  by (induction m) auto

lemma set_map_set: "set (map_set k v m) \<subseteq> insert (k, v) (set m)"
  by (induction m) (auto split: if_splits)

lemma find_map_upd:
  "(\<And>x. P (f x) = P x) \<Longrightarrow> find P (map f xs) = map_option f (find P xs)"
  by (induction xs) auto

lemma paired_serial_store_timezone:
  "paired_serial serial (sv\<lparr>sv_registry := r, sv_devices := store_timezone dev dat (sv_devices sv)\<rparr>)
     = paired_serial serial sv"
proof -
  have "getDeviceBySerial serial (updateDeviceTimezone i tz ds)
          = map_option (\<lambda>d. if dev_id d = i then d\<lparr>dev_device_timezone := Some tz\<rparr> else d)
              (getDeviceBySerial serial ds)" for i tz ds
    unfolding getDeviceBySerial_def updateDeviceTimezone_def
    by (rule find_map_upd) simp
  then show ?thesis
    by (auto simp: paired_serial_def store_timezone_def split: option.splits)
qed

lemma register_display_paired:
  assumes "getDeviceBySerial serial (sv_devices sv) = Some dev" and "dev_is_paired dev"
    and "dev_user_id dev = Some u" and "u \<noteq> 0"
    and "serial \<noteq> []" and "rd_serialNumber dat = Some serial"
  shows "snd (register_display sock dat now sv) =
           sv\<lparr>sv_registry := map_set serial (display_entry sock dev u dat now) (sv_registry sv),
              sv_devices := store_timezone dev dat (sv_devices sv)\<rparr>"
  using assms by (simp add: register_display_def Let_def)

lemma register_display_rejected:
  assumes "\<not> paired_serial serial sv" and "rd_serialNumber dat = Some serial"
  shows "register_display sock dat now sv = ([], sv)"
  using assms
  by (auto simp: register_display_def paired_serial_def truthy_def split: option.splits)

text \<open>
  C7: the registry holds at most one entry per serial at all times: a registry with
  distinct serials keeps them distinct through every run of registrations and disconnects
  (and the registry of a starting process is empty). When a paired serial registers on
  socket \<open>sock1\<close> and again on another socket \<open>sock2\<close>, the registry holds exactly one entry
  for the serial, it points at \<open>sock2\<close>, and the reverse scan for \<open>sock1\<close> no longer finds the
  serial; it finds nothing at all when no other entry used \<open>sock1\<close>.
\<close>

theorem registry_one_entry_per_serial:
  "(distinct (map fst (sv_registry sv)) \<longrightarrow>
      distinct (map fst (sv_registry (run_events evs sv))))
   \<and> (distinct (map fst (sv_registry sv)) \<and> paired_serial serial sv \<and> serial \<noteq> []
        \<and> rd_serialNumber dat1 = Some serial \<and> rd_serialNumber dat2 = Some serial
        \<and> sock1 \<noteq> sock2 \<longrightarrow>
      (let reg2 = sv_registry (snd (register_display sock2 dat2 t2
                                 (snd (register_display sock1 dat1 t1 sv))))
       in length (entries_of serial reg2) = 1
          \<and> map_option di_socketId (map_get serial reg2) = Some sock2
          \<and> lookupBySession sock1 reg2 \<noteq> Some serial
          \<and> (lookupBySession sock1 (sv_registry sv) = None \<longrightarrow> lookupBySession sock1 reg2 = None)))"
proof (intro conjI impI)
  assume "distinct (map fst (sv_registry sv))"
  then show "distinct (map fst (sv_registry (run_events evs sv)))"
    by (rule distinct_run_events)
next
  assume a: "distinct (map fst (sv_registry sv)) \<and> paired_serial serial sv \<and> serial \<noteq> []
        \<and> rd_serialNumber dat1 = Some serial \<and> rd_serialNumber dat2 = Some serial
        \<and> sock1 \<noteq> sock2"
  then obtain dev u where dev: "getDeviceBySerial serial (sv_devices sv) = Some dev"
      "dev_is_paired dev" "dev_user_id dev = Some u" "u \<noteq> 0"
    by (auto simp: paired_serial_def truthy_def split: option.splits)
  define sv1 where "sv1 = snd (register_display sock1 dat1 t1 sv)"
  have sv1: "sv1 = sv\<lparr>sv_registry := map_set serial (display_entry sock1 dev u dat1 t1) (sv_registry sv),
              sv_devices := store_timezone dev dat1 (sv_devices sv)\<rparr>"
    unfolding sv1_def using dev a by (simp add: register_display_paired)
  have p1: "paired_serial serial sv1"
    using a by (simp add: sv1 paired_serial_store_timezone)
  then obtain dev' u' where dev': "getDeviceBySerial serial (sv_devices sv1) = Some dev'"
      "dev_is_paired dev'" "dev_user_id dev' = Some u'" "u' \<noteq> 0"
    by (auto simp: paired_serial_def truthy_def split: option.splits)
  define reg1 where "reg1 = sv_registry sv1"
  define e2 where "e2 = display_entry sock2 dev' u' dat2 t2"
  define reg2 where "reg2 = sv_registry (snd (register_display sock2 dat2 t2 sv1))"
  have reg2: "reg2 = map_set serial e2 reg1"
    unfolding reg2_def reg1_def e2_def using dev' a by (simp add: register_display_paired)
  have d1: "distinct (map fst reg1)"
    using a by (simp add: reg1_def sv1 distinct_map_set)
  have s2: "di_socketId e2 \<noteq> sock1" "di_socketId e2 = sock2"
    using a by (auto simp: e2_def display_entry_def)
  have one: "length (entries_of serial reg2) = 1"
    using d1 by (simp add: reg2 entries_of_map_set)
  have get: "map_option di_socketId (map_get serial reg2) = Some sock2"
    by (simp add: reg2 map_get_map_set s2(2))
  have d2: "distinct (map fst reg2)" using d1 by (simp add: reg2 distinct_map_set)
  have in2: "(serial, e2) \<in> set reg2"
    by (simp add: reg2 map_set_mem)
  have notX: "lookupBySession sock1 reg2 \<noteq> Some serial"
  proof
    assume "lookupBySession sock1 reg2 = Some serial"
    then obtain info where i: "(serial, info) \<in> set reg2" "di_socketId info = sock1"
      using lookupBySession_Some by blast
    with in2 d2 have "info = e2" by (rule_tac eq_key_imp_eq_value) auto
    with i s2 show False by simp
  qed
  have none: "lookupBySession sock1 (sv_registry sv) = None \<longrightarrow> lookupBySession sock1 reg2 = None"
  proof
    assume n: "lookupBySession sock1 (sv_registry sv) = None"
    show "lookupBySession sock1 reg2 = None"
      unfolding lookupBySession_None
    proof
      fix e assume e: "e \<in> set reg2"
      have sub2: "set reg2 \<subseteq> insert (serial, e2) (set reg1)"
        unfolding reg2 by (rule set_map_set)
      have sub1: "set reg1 \<subseteq> insert (serial, display_entry sock1 dev u dat1 t1) (set (sv_registry sv))"
        unfolding reg1_def sv1 by (simp add: set_map_set)
      have old: "x \<in> set (sv_registry sv) \<Longrightarrow> di_socketId (snd x) \<noteq> sock1" for x
        using n unfolding lookupBySession_None by blast
      have key: "fst e = serial \<Longrightarrow> snd e = e2"
      proof -
        assume "fst e = serial"
        then have "(serial, snd e) \<in> set reg2" using e by (metis prod.collapse)
        with in2 d2 show "snd e = e2" by (rule_tac eq_key_imp_eq_value) auto
      qed
      consider "e = (serial, e2)" | "e = (serial, display_entry sock1 dev u dat1 t1)"
        | "e \<in> set (sv_registry sv)"
        using e sub2 sub1 by blast
      then show "di_socketId (snd e) \<noteq> sock1"
      proof cases
        case 1 then show ?thesis using s2 by simp
      next
        case 2 then have "snd e = e2" using key by simp
        then show ?thesis using s2 by simp
      next
        case 3 then show ?thesis by (rule old)
      qed
    qed
  qed
  show "let reg2 = sv_registry (snd (register_display sock2 dat2 t2
                                 (snd (register_display sock1 dat1 t1 sv))))
       in length (entries_of serial reg2) = 1
          \<and> map_option di_socketId (map_get serial reg2) = Some sock2
          \<and> lookupBySession sock1 reg2 \<noteq> Some serial
          \<and> (lookupBySession sock1 (sv_registry sv) = None \<longrightarrow> lookupBySession sock1 reg2 = None)"
    using one get notX none unfolding Let_def reg2_def sv1_def by simp
qed


theorem registry_one_entry_per_serial_witness:
  "distinct (map fst (sv_registry demo_server)) \<and> paired_serial ''X'' demo_server
   \<and> rd_serialNumber demo_register = Some ''X'' \<and> ''s1'' \<noteq> ''s2''
   \<and> map_option di_socketId (map_get ''X'' (sv_registry (snd (register_display ''s2'' demo_register 2
         (snd (register_display ''s1'' demo_register 1 demo_server)))))) = Some ''s2''
   \<and> lookupBySession ''s1'' (sv_registry (snd (register_display ''s2'' demo_register 2
         (snd (register_display ''s1'' demo_register 1 demo_server))))) = None"
proof -
  have h: "distinct (map fst (sv_registry demo_server)) \<and> paired_serial ''X'' demo_server
      \<and> ''X'' \<noteq> [] \<and> rd_serialNumber demo_register = Some ''X''
      \<and> rd_serialNumber demo_register = Some ''X'' \<and> ''s1'' \<noteq> ''s2''"
    by (simp add: demo_server_def demo_register_def demo_device_def paired_serial_def
        getDeviceBySerial_def truthy_def)
  have n: "lookupBySession ''s1'' (sv_registry demo_server) = None"
    by (simp add: demo_server_def)
  show ?thesis
    using registry_one_entry_per_serial
      [of demo_server "[]" "''X''" demo_register demo_register "''s1''" "''s2''" 2 1] h n
    by (simp add: Let_def)
qed

section \<open>Properties of the sweep's repeat bookkeeping\<close>




















section \<open>Immediate display with nothing connected\<close>

lemma emit_to_Nil: "emit_to [] p = []"
  by (simp add: emit_to_def)

lemma display_now_unresolved:
  assumes "dn_imageUrl rq = Some url" and "url \<noteq> []"
    and "resolve_displays u rq groups reg = Some ([], devs)"
  shows "display_now u rq serverNow groups reg db = (NotFound404 ''No displays connected'', [], db)"
  using assms by (simp add: display_now_def Let_def emit_to_Nil)

lemma allOwnedBy_Nil: "allOwnedBy u reg = [] \<longleftrightarrow> (\<forall>e \<in> set reg. di_userId (snd e) \<noteq> u)"
  by (auto simp: allOwnedBy_def filter_empty_conv)

lemma ownedDevice_Nil:
  "ownedDevice u d reg = [] \<longleftrightarrow> (\<forall>e \<in> set reg. \<not> (di_userId (snd e) = u \<and> di_deviceId (snd e) = d))"
  by (auto simp: ownedDevice_def filter_empty_conv)

text \<open>Every outcome other than success leaves the database as it was.\<close>

lemma display_now_failure_frame:
  assumes "\<forall>n. fst (display_now u rq serverNow groups reg db) \<noteq> DisplaySent n"
  shows "snd (snd (display_now u rq serverNow groups reg db)) = db"
  using assms
  by (auto simp: display_now_def Let_def split: option.splits if_splits prod.splits)

text \<open>
  C6: an immediate-display request with a content URL whose target resolves no connected
  display (no connected display of the owner when it names no device and no group; no
  connected display of the owner with that device id when it names a device; none for any
  device of the selection group for a group upload) is answered 404 "No displays
  connected", emits nothing, and leaves the database as it was: no display-history row and
  no schedule row is written.
\<close>

theorem display_now_no_displays:
  assumes "dn_imageUrl rq = Some url" and "url \<noteq> []"
  shows
    "(group_target (dn_groupId rq) (dn_uploadedFromGroup rq) = None \<and> \<not> truthy (dn_deviceId rq)
        \<and> (\<forall>e \<in> set reg. di_userId (snd e) \<noteq> u) \<longrightarrow>
      display_now u rq serverNow groups reg db = (NotFound404 ''No displays connected'', [], db))
   \<and> (group_target (dn_groupId rq) (dn_uploadedFromGroup rq) = None \<and> dn_deviceId rq = Some d
        \<and> d \<noteq> 0 \<and> (\<forall>e \<in> set reg. \<not> (di_userId (snd e) = u \<and> di_deviceId (snd e) = d)) \<longrightarrow>
      display_now u rq serverNow groups reg db = (NotFound404 ''No displays connected'', [], db))
   \<and> (group_target (dn_groupId rq) (dn_uploadedFromGroup rq) = Some g \<and> groups g u = Some devs
        \<and> (\<forall>d \<in> set devs. \<forall>e \<in> set reg. \<not> (di_userId (snd e) = u \<and> di_deviceId (snd e) = d)) \<longrightarrow>
      display_now u rq serverNow groups reg db = (NotFound404 ''No displays connected'', [], db))"
proof (intro conjI impI)
  assume a: "group_target (dn_groupId rq) (dn_uploadedFromGroup rq) = None \<and> \<not> truthy (dn_deviceId rq)
        \<and> (\<forall>e \<in> set reg. di_userId (snd e) \<noteq> u)"
  then have "allOwnedBy u reg = []" by (simp add: allOwnedBy_Nil)
  with a have "resolve_displays u rq groups reg = Some ([], [])"
    by (auto simp: resolve_displays_def truthy_def split: option.splits)
  with assms show "display_now u rq serverNow groups reg db = (NotFound404 ''No displays connected'', [], db)"
    by (rule display_now_unresolved)
next
  assume a: "group_target (dn_groupId rq) (dn_uploadedFromGroup rq) = None \<and> dn_deviceId rq = Some d
        \<and> d \<noteq> 0 \<and> (\<forall>e \<in> set reg. \<not> (di_userId (snd e) = u \<and> di_deviceId (snd e) = d))"
  then have "ownedDevice u d reg = []" by (simp add: ownedDevice_Nil)
  with a have "resolve_displays u rq groups reg = Some ([], [])"
    by (simp add: resolve_displays_def)
  with assms show "display_now u rq serverNow groups reg db = (NotFound404 ''No displays connected'', [], db)"
    by (rule display_now_unresolved)
next
  assume a: "group_target (dn_groupId rq) (dn_uploadedFromGroup rq) = Some g \<and> groups g u = Some devs
        \<and> (\<forall>d \<in> set devs. \<forall>e \<in> set reg. \<not> (di_userId (snd e) = u \<and> di_deviceId (snd e) = d))"
  then have "\<forall>d \<in> set devs. ownedDevice u d reg = []" by (simp add: ownedDevice_Nil)
  then have "concat (map (\<lambda>d. ownedDevice u d reg) devs) = []" by simp
  with a have "resolve_displays u rq groups reg = Some ([], devs)"
    by (simp add: resolve_displays_def)
  with assms show "display_now u rq serverNow groups reg db = (NotFound404 ''No displays connected'', [], db)"
    by (rule display_now_unresolved)
qed


theorem display_now_no_displays_witness:
  "dn_imageUrl demo_display_now = Some ''a.png'' \<and> ''a.png'' \<noteq> []
   \<and> di_userId (demo_entry ''k7'' 7 3) \<noteq> 5
   \<and> display_now 5 demo_display_now 1000 no_groups [(''S7'', demo_entry ''k7'' 7 3)] empty_db
       = (NotFound404 ''No displays connected'', [], empty_db)"
proof -
  have u: "dn_imageUrl demo_display_now = Some ''a.png''" "''a.png'' \<noteq> []"
    by (simp_all add: demo_display_now_def)
  have h: "group_target (dn_groupId demo_display_now) (dn_uploadedFromGroup demo_display_now) = None
      \<and> \<not> truthy (dn_deviceId demo_display_now)
      \<and> (\<forall>e \<in> set [(''S7'', demo_entry ''k7'' 7 3)]. di_userId (snd e) \<noteq> 5)"
    by (simp add: demo_display_now_def group_target_def truthy_def demo_entry_def)
  show ?thesis
    using display_now_no_displays [OF u, of "[(''S7'', demo_entry ''k7'' 7 3)]" 5 1000 no_groups empty_db]
      h u
    by (simp add: demo_entry_def)
qed

section \<open>Ending a live session is atomic\<close>







section \<open>The dayparts partition the day\<close>

lemma of_char_digit: "n < 10 \<Longrightarrow> (of_char (digit n) :: nat) = 48 + n"
  by (simp add: digit_def)

lemma digit_eq_iff:
  assumes "m < 10" and "n < 10"
  shows "(digit m = digit n) = (m = n)"
proof
  assume "digit m = digit n"
  then have "(of_char (digit m) :: nat) = of_char (digit n)" by simp
  then show "m = n" using assms by (simp add: of_char_digit)
qed simp

lemma two_digit_less:
  fixes a b a' b' :: nat
  assumes "b < 10" and "b' < 10"
  shows "(10 * a + b < 10 * a' + b') = (a < a' \<or> (a = a' \<and> b < b'))"
proof (cases a a' rule: linorder_cases)
  case less then show ?thesis using assms by linarith
next
  case equal then show ?thesis by simp
next
  case greater then show ?thesis using assms by linarith
qed

lemma two_digit_eq:
  fixes a b a' b' :: nat
  assumes "b < 10" and "b' < 10"
  shows "(10 * a + b = 10 * a' + b') = (a = a' \<and> b = b')"
proof (cases a a' rule: linorder_cases)
  case less then show ?thesis using assms by linarith
next
  case equal then show ?thesis by simp
next
  case greater then show ?thesis using assms by linarith
qed

lemma pad2_digits: "b < 10 \<Longrightarrow> pad2 (10 * a + b) = [digit a, digit b]"
  by (simp add: pad2_def)

lemma js_less_digits:
  assumes "a < 10" "b < 10" "c < 10" "e < 10" "a' < 10" "b' < 10" "c' < 10" "e' < 10"
  shows "js_less ([digit a, digit b] @ '':'' @ [digit c, digit e])
                 ([digit a', digit b'] @ '':'' @ [digit c', digit e'])
         = (a < a' \<or> (a = a' \<and> (b < b' \<or> (b = b' \<and> (c < c' \<or> (c = c' \<and> e < e'))))))"
  using assms by (simp add: of_char_digit digit_eq_iff)

lemma js_less_currentTime:
  assumes "h < 100" "m < 100" "h' < 100" "m' < 100"
  shows "js_less (currentTime h m) (currentTime h' m') = (h < h' \<or> (h = h' \<and> m < m'))"
proof -
  define a b c e where "a = h div 10" and "b = h mod 10" and "c = m div 10" and "e = m mod 10"
  define a' b' c' e' where "a' = h' div 10" and "b' = h' mod 10" and "c' = m' div 10"
    and "e' = m' mod 10"
  have h: "h = 10 * a + b" "m = 10 * c + e" "h' = 10 * a' + b'" "m' = 10 * c' + e'"
    by (simp_all add: a_def b_def c_def e_def a'_def b'_def c'_def e'_def)
  have lt: "a < 10" "b < 10" "c < 10" "e < 10" "a' < 10" "b' < 10" "c' < 10" "e' < 10"
    using assms by (simp_all add: a_def b_def c_def e_def a'_def b'_def c'_def e'_def)
  have "js_less (currentTime h m) (currentTime h' m')
      = (a < a' \<or> (a = a' \<and> (b < b' \<or> (b = b' \<and> (c < c' \<or> (c = c' \<and> e < e'))))))"
    unfolding currentTime_def h using lt by (simp only: pad2_digits js_less_digits)
  also have "\<dots> = (h < h' \<or> (h = h' \<and> m < m'))"
    unfolding h using lt by (simp only: two_digit_less two_digit_eq) blast
  finally show ?thesis .
qed

lemma bounds: "''06:00'' = currentTime 6 0" "''11:00'' = currentTime 11 0"
  "''16:00'' = currentTime 16 0" "''22:00'' = currentTime 22 0"
  by code_simp+

lemma DAYPARTS_list: "DAYPARTS = [breakfast, lunch, dinner, late_night]"
  by (simp add: DAYPARTS_def)

lemma in_daypart_hours:
  assumes "hours < 24" and "minutes < 60"
  shows "in_daypart (currentTime hours minutes) breakfast = (6 \<le> hours \<and> hours < 11)"
    and "in_daypart (currentTime hours minutes) lunch = (11 \<le> hours \<and> hours < 16)"
    and "in_daypart (currentTime hours minutes) dinner = (16 \<le> hours \<and> hours < 22)"
    and "in_daypart (currentTime hours minutes) late_night = (22 \<le> hours \<or> hours < 6)"
  using assms
  by (auto simp: in_daypart_def js_ge_def breakfast_def lunch_def dinner_def late_night_def
      bounds js_less_currentTime)

lemma daypart_distinct:
  "breakfast \<noteq> lunch" "breakfast \<noteq> dinner" "breakfast \<noteq> late_night"
  "lunch \<noteq> dinner" "lunch \<noteq> late_night" "dinner \<noteq> late_night"
  by (simp_all add: breakfast_def lunch_def dinner_def late_night_def)

lemma getCurrentDaypart_hours:
  assumes "hours < 24" and "minutes < 60"
  shows "getCurrentDaypart hours minutes =
     (if 6 \<le> hours \<and> hours < 11 then breakfast
      else if 11 \<le> hours \<and> hours < 16 then lunch
      else if 16 \<le> hours \<and> hours < 22 then dinner
      else late_night)"
  using assms by (auto simp: getCurrentDaypart_def DAYPARTS_list in_daypart_hours)

text \<open>
  C8: at every wall-clock time (hours below 24, minutes below 60) \<^verbatim>\<open>getCurrentDaypart\<close>
  returns one of the four windows of \<^verbatim>\<open>DAYPARTS\<close> and never the \<^verbatim>\<open>UNKNOWN\<close> fallback; the
  window returned is the only one whose test holds at that time, so the windows leave no
  gap and do not overlap; breakfast is 06:00 to 11:00, lunch 11:00 to 16:00, dinner 16:00
  to 22:00, and the late-night window, tested with "at or after its start or before its
  end", is 22:00 to 06:00.
\<close>

theorem getCurrentDaypart_partition:
  assumes "hours < 24" and "minutes < 60"
  shows "getCurrentDaypart hours minutes \<in> set DAYPARTS
    \<and> dp_type (getCurrentDaypart hours minutes) \<noteq> UNKNOWN
    \<and> (\<forall>dp \<in> set DAYPARTS.
          in_daypart (currentTime hours minutes) dp = (dp = getCurrentDaypart hours minutes))
    \<and> getCurrentDaypart hours minutes =
         (if 6 \<le> hours \<and> hours < 11 then breakfast
          else if 11 \<le> hours \<and> hours < 16 then lunch
          else if 16 \<le> hours \<and> hours < 22 then dinner
          else late_night)"
proof (intro conjI)
  note g = getCurrentDaypart_hours [OF assms]
  show "getCurrentDaypart hours minutes \<in> set DAYPARTS"
    by (simp add: g DAYPARTS_list)
  show "dp_type (getCurrentDaypart hours minutes) \<noteq> UNKNOWN"
    by (simp add: g breakfast_def lunch_def dinner_def late_night_def)
  show "\<forall>dp \<in> set DAYPARTS.
          in_daypart (currentTime hours minutes) dp = (dp = getCurrentDaypart hours minutes)"
    using daypart_distinct
    by (auto simp: g DAYPARTS_list in_daypart_hours [OF assms])
  show "getCurrentDaypart hours minutes =
         (if 6 \<le> hours \<and> hours < 11 then breakfast
          else if 11 \<le> hours \<and> hours < 16 then lunch
          else if 16 \<le> hours \<and> hours < 22 then dinner
          else late_night)"
    by (rule g)
qed

theorem getCurrentDaypart_partition_witness:
  "(23::nat) < 24 \<and> (59::nat) < 60 \<and> getCurrentDaypart 23 59 = late_night
   \<and> in_daypart (currentTime 23 59) late_night \<and> \<not> in_daypart (currentTime 23 59) dinner"
proof -
  have h: "(23::nat) < 24" "(59::nat) < 60" by simp_all
  have m: "late_night \<in> set DAYPARTS" "dinner \<in> set DAYPARTS" by (simp_all add: DAYPARTS_list)
  show ?thesis
    using getCurrentDaypart_partition [OF h] m daypart_distinct by auto
qed

section \<open>Owner scoping of the sweep and of the replay on connect\<close>

lemma other_owner_db_rows:
  "other_owner_db =
     \<lparr>schedules = [pending_at 1 0 60000], schedules_seq = 1,
      display_history = [], display_history_seq = 0\<rparr>"
  by (simp add: other_owner_db_def post_schedule_def minute_request_def group_target_def
      or_default_def hasConflict_def create_def request_data_def or_default_str_def
      or_false_def repeat_types_def empty_db_def pending_at_def Let_def int4_def
      valid_instant_def js_parse_def utc_time_def utc_process_def pg_fields_of_date_def
      pg_timestamp_def)

lemma getPending_single:
  "getPending 1000 [pending_at 1 0 60000] = [pending_at 1 0 60000]"
  by (simp add: getPending_def pending_at_def)

text \<open>
  What does hold of a pass: it visits each owner id of the registry once, and every event
  it emits for owner \<open>u\<close> goes to the socket of a display registered to \<open>u\<close>.
\<close>

lemma js_set_of_foldl:
  "set (foldl (\<lambda>s x. js_set_add x s) acc xs) = set acc \<union> set xs
   \<and> (distinct acc \<longrightarrow> distinct (foldl (\<lambda>s x. js_set_add x s) acc xs))"
  by (induction xs arbitrary: acc) (auto simp: js_set_add_def)

lemma activeUserIds_owners:
  "set (activeUserIds reg) = (\<lambda>e. di_userId (snd e)) ` set reg \<and> distinct (activeUserIds reg)"
  using js_set_of_foldl [of "[]" "map (\<lambda>e. di_userId (snd e)) reg"]
  by (simp add: activeUserIds_def js_set_of_def)

lemma fire_schedule_emits:
  "fst (fire_schedule now u reg st s)
     = fst st @ emit_to (allOwnedBy u reg) (DisplayContent (sweep_content now s))"
  by (simp add: fire_schedule_def Let_def)

lemma emit_to_owner_only:
  "(sock, p) \<in> set (emit_to (allOwnedBy u reg) q) \<Longrightarrow>
     \<exists>e \<in> set reg. di_userId (snd e) = u \<and> di_socketId (snd e) = sock"
  by (auto simp: emit_to_def allOwnedBy_def)

text \<open>
  C4 at a failing input: the only connected display belongs to user 5 and the only schedule
  entry was created by user 7. The pass for user 5 calls
  \<^verbatim>\<open>scheduleDb.getPending(userId)\<close>, which takes no parameter and returns every due pending
  row; user 7's entry is pushed to user 5's display, logged and marked completed.
\<close>

theorem sweep_pushes_other_owners_entry:
  "sweep 1000 [(''S5'', demo_entry ''k5'' 5 9)] other_owner_db =
     ([(''k5'', DisplayContent (sweep_content 1000 (pending_at 1 0 60000)))],
      \<lparr>schedules = [(pending_at 1 0 60000)\<lparr>status := Completed\<rparr>], schedules_seq = 1,
       display_history =
         [\<lparr>h_id = 1, h_image_url = ''a.png'', h_displayed_at = 1000, h_duration = 60000,
           h_rotation = 0, h_mirror = False, h_schedule_id = Some 1\<rparr>],
       display_history_seq = 1\<rparr>)"
proof -
  have u: "activeUserIds [(''S5'', demo_entry ''k5'' 5 9)] = [5]"
    by (simp add: activeUserIds_def js_set_of_def js_set_add_def demo_entry_def)
  have f: "fire_schedule 1000 5 [(''S5'', demo_entry ''k5'' 5 9)]
             ([], \<lparr>schedules = [pending_at 1 0 60000], schedules_seq = 1,
                    display_history = [], display_history_seq = 0\<rparr>) (pending_at 1 0 60000)
      = ([(''k5'', DisplayContent (sweep_content 1000 (pending_at 1 0 60000)))],
      \<lparr>schedules = [(pending_at 1 0 60000)\<lparr>status := Completed\<rparr>], schedules_seq = 1,
       display_history =
         [\<lparr>h_id = 1, h_image_url = ''a.png'', h_displayed_at = 1000, h_duration = 60000,
           h_rotation = 0, h_mirror = False, h_schedule_id = Some 1\<rparr>],
       display_history_seq = 1\<rparr>)"
    by (simp add: fire_schedule_def Let_def emit_to_def allOwnedBy_def demo_entry_def
        displayDb_create_def or_default_def or_false_def repeat_bookkeeping_def updateStatus_def
        pending_at_def int4_def)
  show ?thesis
    by (simp add: sweep_def u other_owner_db_rows getPending_single f)
qed

text \<open>
  What does hold of a registration: an active layout of the device goes first, nothing is
  sent when there is no layout and no row is due, and (\<open>register_display_rejected\<close>) an
  unknown or unpaired serial gets nothing and no registry entry.
\<close>

lemma register_display_layout_first:
  assumes "getDeviceBySerial serial (sv_devices sv) = Some dev" and "dev_is_paired dev"
    and "dev_user_id dev = Some u" and "u \<noteq> 0"
    and "serial \<noteq> []" and "rd_serialNumber dat = Some serial"
    and "activeLayout (dev_id dev) u (sv_layouts sv) = Some l"
  shows "fst (register_display sock dat now sv) = [(sock, layout_message u (sv_uploads sv) l)]"
  using assms by (simp add: register_display_def Let_def replay_on_connect_def)

lemma register_display_nothing_due:
  assumes "getDeviceBySerial serial (sv_devices sv) = Some dev" and "dev_is_paired dev"
    and "dev_user_id dev = Some u" and "u \<noteq> 0"
    and "serial \<noteq> []" and "rd_serialNumber dat = Some serial"
    and "activeLayout (dev_id dev) u (sv_layouts sv) = None"
    and "getPending now (schedules (sv_db sv)) = []"
  shows "fst (register_display sock dat now sv) = []"
  using assms by (simp add: register_display_def Let_def replay_on_connect_def)

text \<open>
  C10 at a failing input: device 9 of user 5 registers while the only due pending entry is
  the one user 7 created for device 3. The handler registers the display and replays the
  first row of \<^verbatim>\<open>scheduleDb.getPending(device.user_id, device.id)\<close>, which takes no
  parameter: user 7's content is sent to user 5's display.
\<close>

theorem register_replays_other_owners_entry:
  "register_display ''k5'' demo_register 1000 (demo_server\<lparr>sv_db := other_owner_db\<rparr>) =
     ([(''k5'', DisplayContent (replay_content 1000 (pending_at 1 0 60000)))],
      demo_server\<lparr>sv_registry := [(''X'', display_entry ''k5'' demo_device 5 demo_register 1000)],
                   sv_db := other_owner_db\<rparr>)"
  by (simp add: register_display_def demo_register_def demo_server_def demo_device_def
      getDeviceBySerial_def Let_def store_timezone_def replay_on_connect_def activeLayout_def
      other_owner_db_rows getPending_single)


end
